theory Spec2Isabelle
  imports Main "HOL-Library.AList"
begin

section \<open>Output sinks of MUSE: configuration values and errors\<close>

text \<open>
  The module \<^verbatim>\<open>muse/outputs/sinks.py\<close> builds sinks from a nested configuration
  (the output section of a settings file) and calls them once per simulated year.
  A configuration value is what a TOML table can hold: nothing, a boolean, an integer,
  a string or a nested table. A Python \<^verbatim>\<open>dict\<close> with string keys is an association
  list in insertion order; \<^verbatim>\<open>d[k] = v\<close> is \<open>AList.update\<close> (in place when the key is
  there, appended otherwise) and \<^verbatim>\<open>d.pop(k)\<close> leaves \<open>AList.delete k d\<close>.
\<close>

datatype val = VNone | VBool bool | VInt int | VStr string | VDict "(string \<times> val) list"

type_synonym dict = "(string \<times> val) list"

text \<open>Every exception of the module and of the interpreter is a value.\<close>

datatype oserror = FileExistsError | FileNotFoundError | NotADirectoryError | IsADirectoryError

datatype error =
    KeyError string
  | ValueError string
  | TypeError
  | IndexError
  | AttributeError
  | IOError string
  | OSError oserror
  | RecursionError
  | Unsupported string

text \<open>Python's truth value of a configuration value (\<^verbatim>\<open>if x:\<close>, \<^verbatim>\<open>not x\<close>).\<close>

fun truthy :: "val \<Rightarrow> bool" where
  "truthy VNone = False"
| "truthy (VBool b) = b"
| "truthy (VInt i) = (i \<noteq> 0)"
| "truthy (VStr s) = (s \<noteq> [])"
| "truthy (VDict d) = (d \<noteq> [])"

text \<open>\<^verbatim>\<open>d.get(k, default)\<close> and \<^verbatim>\<open>d.update(other)\<close>.\<close>

definition dict_get :: "dict \<Rightarrow> string \<Rightarrow> val \<Rightarrow> val" where
  "dict_get d k dflt = (case map_of d k of None \<Rightarrow> dflt | Some v \<Rightarrow> v)"

definition dict_update :: "dict \<Rightarrow> dict \<Rightarrow> dict" where
  "dict_update d other = foldl (\<lambda>acc (k, v). AList.update k v acc) d other"

section \<open>The suffix of a path\<close>

text \<open>
  \<^verbatim>\<open>pathlib.Path(s).suffix\<close> on a POSIX system: the path is split at \<^verbatim>\<open>/\<close>, empty
  and \<^verbatim>\<open>.\<close> components are dropped, the name is the last component (empty when there
  is none), and the suffix is the part of the name from its last dot, when that dot is
  neither the first nor the last character of the name.
\<close>

fun split_on :: "char \<Rightarrow> string \<Rightarrow> string list" where
  "split_on c [] = [[]]"
| "split_on c (x # ys) =
     (if x = c then [] # split_on c ys
      else (case split_on c ys of [] \<Rightarrow> [[x]] | w # ws \<Rightarrow> (x # w) # ws))"

definition path_parts :: "string \<Rightarrow> string list" where
  "path_parts s = filter (\<lambda>p. p \<noteq> [] \<and> p \<noteq> ''.'') (split_on CHR ''/'' s)"

definition path_name :: "string \<Rightarrow> string" where
  "path_name s = (case rev (path_parts s) of [] \<Rightarrow> [] | n # _ \<Rightarrow> n)"

text \<open>\<^verbatim>\<open>s.rfind(c)\<close>, with \<open>None\<close> for Python's \<open>-1\<close>.\<close>

fun rfind :: "char \<Rightarrow> string \<Rightarrow> nat option" where
  "rfind c [] = None"
| "rfind c (x # ys) =
     (case rfind c ys of
        Some i \<Rightarrow> Some (Suc i)
      | None \<Rightarrow> (if x = c then Some 0 else None))"

definition name_suffix :: "string \<Rightarrow> string" where
  "name_suffix n =
     (case rfind CHR ''.'' n of
        None \<Rightarrow> []
      | Some i \<Rightarrow> (if 0 < i \<and> Suc i < length n then drop i n else []))"

definition path_suffix :: "string \<Rightarrow> string" where
  "path_suffix s = name_suffix (path_name s)"

section \<open>Normalization of the sink specification\<close>

text \<open>
  Lines 49 to 57 of \<^verbatim>\<open>normalize\<close>: a mapping is copied, a string becomes the sink's
  name, anything else takes the name from the \<^verbatim>\<open>suffix\<close> key of the outer configuration
  or, without it, from the suffix of the file name. The default of \<^verbatim>\<open>config.get\<close> is
  evaluated before the lookup, so \<^verbatim>\<open>Path(filename)\<close> runs whenever the file name is
  truthy, and raises a TypeError when it is not a string.
\<close>

definition default_suffix :: "val \<Rightarrow> error + val" where
  "default_suffix filename =
     (if truthy filename then
        (case filename of VStr s \<Rightarrow> Inr (VStr (path_suffix s)) | _ \<Rightarrow> Inl TypeError)
      else Inr (VStr ''csv''))"

definition normalize_spec :: "dict \<Rightarrow> val \<Rightarrow> val \<Rightarrow> error + dict" where
  "normalize_spec config params filename =
     (case params of
        VDict m \<Rightarrow> Inr m
      | VStr s \<Rightarrow> Inr [(''name'', VStr s)]
      | _ \<Rightarrow>
          (case default_suffix filename of
             Inl e \<Rightarrow> Inl e
           | Inr dflt \<Rightarrow>
               (let suffix = dict_get config ''suffix'' dflt;
                    suffix = (if \<not> truthy suffix then VStr ''csv'' else suffix)
                in Inr [(''name'', suffix)])))"

lemma size_map_of:
  "map_of m k = Some a \<Longrightarrow> size a < size (VDict m)"
  by (induction m) (auto split: if_splits)

lemma normalize_spec_aggregate:
  assumes "normalize_spec config params filename = Inr p"
    and "map_of p ''aggregate'' = Some a"
  shows "params = VDict p"
  using assms
  by (cases params)
     (auto simp: normalize_spec_def Let_def split: sum.splits if_splits)

text \<open>
  The whole of \<^verbatim>\<open>normalize\<close>: when the specification has an \<^verbatim>\<open>aggregate\<close> key, the
  name becomes \<^verbatim>\<open>aggregate\<close>, the key is popped, its value is normalized in turn, and
  the result is stored as \<^verbatim>\<open>final_sink = dict(sink=...)\<close>.
\<close>

function normalize :: "dict \<Rightarrow> val \<Rightarrow> val \<Rightarrow> error + dict" where
  "normalize config params filename =
     (case normalize_spec config params filename of
        Inl e \<Rightarrow> Inl e
      | Inr p \<Rightarrow>
          (case map_of p ''aggregate'' of
             None \<Rightarrow> Inr p
           | Some a \<Rightarrow>
               (let p1 = AList.update ''name'' (VStr ''aggregate'') p;
                    p2 = AList.delete ''aggregate'' p1
                in case normalize config a filename of
                     Inl e \<Rightarrow> Inl e
                   | Inr inner \<Rightarrow>
                       Inr (AList.update ''final_sink''
                              (VDict [(''sink'', VDict inner)]) p2))))"
  by pat_completeness auto
termination
proof (relation "measure (\<lambda>(config, params, filename). size params)")
  show "wf (measure (\<lambda>(config, params, filename). size params))" by simp
next
  fix config params filename p a p1 p2
  assume "normalize_spec config params filename = Inr p"
    and "map_of p ''aggregate'' = Some a"
  then have "params = VDict p" and "size a < size (VDict p)"
    by (auto dest: normalize_spec_aggregate size_map_of)
  then show "((config, a, filename), (config, params, filename))
      \<in> measure (\<lambda>(config, params, filename). size params)"
    by simp
qed

declare normalize.simps [simp del]

section \<open>Strings\<close>

text \<open>
  \<^verbatim>\<open>str.lower\<close>, \<^verbatim>\<open>str.title\<close> and \<^verbatim>\<open>str(int)\<close> on ASCII text. A character outside
  \<^verbatim>\<open>A-Z\<close> and \<^verbatim>\<open>a-z\<close> is uncased: it is left as it is and starts a new word.
\<close>

definition lowercase :: string where
  "lowercase = ''abcdefghijklmnopqrstuvwxyz''"

definition uppercase :: string where
  "uppercase = ''ABCDEFGHIJKLMNOPQRSTUVWXYZ''"



definition to_lower :: "char \<Rightarrow> char" where
  "to_lower c = (case map_of (zip uppercase lowercase) c of Some l \<Rightarrow> l | None \<Rightarrow> c)"


definition lower :: "string \<Rightarrow> string" where
  "lower s = map to_lower s"








section \<open>Formatting the file name template\<close>

text \<open>
  \<^verbatim>\<open>filestring.format(cwd=..., quantity=..., ...)\<close> with keyword arguments only. The
  template is read from left to right: \<^verbatim>\<open>{{\<close> and \<^verbatim>\<open>}}\<close> are literal braces,
  \<^verbatim>\<open>{name}\<close> is replaced by the argument of that name, and the first problem met raises:
  a name that is not an argument is a KeyError, an empty or numeric name refers to a
  positional argument, of which there is none (IndexError), a brace without its partner
  is a ValueError. Fields with an attribute, an index, a conversion or a format
  specification (\<^verbatim>\<open>.\<close>, \<^verbatim>\<open>[\<close>, \<^verbatim>\<open>!\<close>, \<^verbatim>\<open>:\<close>) are outside this model.
\<close>

datatype mode = Lit | Open | Field string | Close

definition is_digit :: "char \<Rightarrow> bool" where
  "is_digit c = (c \<in> set ''0123456789'')"

definition field_value :: "(string \<times> string) list \<Rightarrow> string \<Rightarrow> error + string" where
  "field_value args f =
     (if list_ex (\<lambda>c. c \<in> set ''.[!:'') f then Inl (Unsupported ''format field'')
      else if list_all is_digit f then Inl IndexError
      else (case map_of args f of None \<Rightarrow> Inl (KeyError f) | Some v \<Rightarrow> Inr v))"

definition emit :: "string \<Rightarrow> error + string \<Rightarrow> error + string" where
  "emit s r = (case r of Inl e \<Rightarrow> Inl e | Inr t \<Rightarrow> Inr (s @ t))"

fun scan :: "(string \<times> string) list \<Rightarrow> mode \<Rightarrow> string \<Rightarrow> error + string" where
  "scan args Lit [] = Inr []"
| "scan args Lit (c # cs) =
     (if c = CHR ''{'' then scan args Open cs
      else if c = CHR ''}'' then scan args Close cs
      else emit [c] (scan args Lit cs))"
| "scan args Open [] = Inl (ValueError ''Single { encountered in format string'')"
| "scan args Open (c # cs) =
     (if c = CHR ''{'' then emit ''{'' (scan args Lit cs)
      else if c = CHR ''}'' then Inl IndexError
      else scan args (Field [c]) cs)"
| "scan args (Field f) [] = Inl (ValueError ''expected } before end of string'')"
| "scan args (Field f) (c # cs) =
     (if c = CHR ''}'' then
        (case field_value args f of
           Inl e \<Rightarrow> Inl e
         | Inr v \<Rightarrow> emit v (scan args Lit cs))
      else if c = CHR ''{'' then Inl (ValueError ''unexpected { in field name'')
      else scan args (Field (f @ [c])) cs)"
| "scan args Close [] = Inl (ValueError ''Single } encountered in format string'')"
| "scan args Close (c # cs) =
     (if c = CHR ''}'' then emit ''}'' (scan args Lit cs)
      else Inl (ValueError ''Single } encountered in format string''))"

definition format :: "string \<Rightarrow> (string \<times> string) list \<Rightarrow> error + string" where
  "format template args = scan args Lit template"

section \<open>Quantities\<close>

text \<open>
  The tabular container is pandas' and is not part of the module. Of a DataFrame the
  model keeps what the module looks at: the column labels, the names of the index
  levels (\<open>None\<close> for an unnamed level), the rows in order (index key and cells) and
  the \<^verbatim>\<open>name\<close> attribute that line 256 sets. A frame that pandas derives from another
  is a new object without that attribute. A DataArray has named dimensions, entries
  and an optional name; \<^verbatim>\<open>to_dataframe\<close> turns the dimensions into index levels and
  the values into one column named after the array, and refuses an unnamed array.
\<close>

datatype cell = CInt int | CStr string

record frame =
  columns :: "string list"
  index_names :: "string option list"
  rows :: "(cell list \<times> cell list) list"
  frame_name :: "string option"

datatype quantity =
    DataFrame frame
  | DataArray "string list" "(cell list \<times> cell) list" "string option"










section \<open>Paths and the file system\<close>

text \<open>
  A \<^verbatim>\<open>pathlib.Path\<close> on a POSIX system is its list of components and whether it is
  absolute. The file system maps a path to a directory or to a file holding the
  document written there. The empty relative path is the current directory and the
  empty absolute path is the root; both always exist.
\<close>

datatype path = PosixPath bool "string list"


fun parts :: "path \<Rightarrow> string list" where
  "parts (PosixPath ab ps) = ps"





datatype dataset = from_dataframe frame | Dataset "(string \<times> quantity) list"

datatype document = Csv frame dict | Excel frame dict | NetCDF dataset dict

datatype node = Dir | File document

type_synonym fs = "path \<Rightarrow> node option"

definition exists :: "fs \<Rightarrow> path \<Rightarrow> bool" where
  "exists files p = (parts p = [] \<or> files p \<noteq> None)"






section \<open>Writers\<close>






section \<open>The decorator \<^verbatim>\<open>sink_to_file\<close>\<close>








section \<open>Sinks\<close>

text \<open>
  A registered implementation is one of the three decorated functions or the class
  \<^verbatim>\<open>YearlyAggregate\<close>. A built sink is a function with its keyword arguments bound
  (\<^verbatim>\<open>functools.partial\<close>) or an instance of the class, with its fields \<^verbatim>\<open>sink\<close>,
  \<^verbatim>\<open>aggregate\<close> and \<^verbatim>\<open>axis\<close>.
\<close>

datatype sink_function = csv | netcdf | excel

datatype implementation = Function sink_function | YearlyAggregate

datatype sink = Partial sink_function dict | Aggregate sink "frame option" val




section \<open>The yearly aggregate\<close>




section \<open>The factory\<close>

text \<open>
  Lines 228 to 236 of \<^verbatim>\<open>YearlyAggregate.__init__\<close>: the configuration of the inner
  sink. Without \<^verbatim>\<open>final_sink\<close> it is the remaining keyword arguments; otherwise they
  are merged into \<^verbatim>\<open>final_sink["sink"]\<close>. Then \<^verbatim>\<open>overwrite\<close> is set to True unless the
  key is in \<^verbatim>\<open>final_sink\<close> or in its \<^verbatim>\<open>sink\<close> mapping.
\<close>

definition keys :: "dict \<Rightarrow> string set" where
  "keys d = set (map fst d)"

definition has_overwrite :: "dict \<Rightarrow> bool" where
  "has_overwrite final_sink =
     (''overwrite'' \<in> keys final_sink \<or>
      (case dict_get final_sink ''sink'' VNone of
         VDict s \<Rightarrow> ''overwrite'' \<in> keys s
       | _ \<Rightarrow> False))"

definition default_overwrite :: "dict \<Rightarrow> dict" where
  "default_overwrite final_sink =
     (if \<not> has_overwrite final_sink
      then AList.update ''overwrite'' (VBool True) final_sink
      else final_sink)"

definition merge_kwargs :: "val \<Rightarrow> dict \<Rightarrow> error + dict" where
  "merge_kwargs final_sink kwargs =
     (case final_sink of
        VNone \<Rightarrow> Inr kwargs
      | VDict d \<Rightarrow>
          (case map_of d ''sink'' of
             None \<Rightarrow> Inl (KeyError ''sink'')
           | Some (VDict s) \<Rightarrow> Inr (AList.update ''sink'' (VDict (dict_update s kwargs)) d)
           | Some _ \<Rightarrow> Inl AttributeError)
      | _ \<Rightarrow> Inl TypeError)"

definition inner_config :: "val \<Rightarrow> dict \<Rightarrow> error + dict" where
  "inner_config final_sink kwargs =
     (case merge_kwargs final_sink kwargs of
        Inl err \<Rightarrow> Inl err
      | Inr d \<Rightarrow> Inr (default_overwrite d))"

text \<open>Lines 72 and 73: a leading dot of the sink name is dropped.\<close>

fun strip_dot :: "val \<Rightarrow> error + string" where
  "strip_dot (VStr s) =
     (case s of [] \<Rightarrow> Inl IndexError | c # cs \<Rightarrow> Inr (if c = CHR ''.'' then cs else s))"
| "strip_dot (VDict d) = Inl (KeyError ''0'')"
| "strip_dot v = Inl TypeError"

text \<open>\<^verbatim>\<open>sector_name.lower()\<close>.\<close>

fun lower_val :: "val \<Rightarrow> error + string" where
  "lower_val (VStr s) = Inr (lower s)"
| "lower_val v = Inl AttributeError"

text \<open>
  Lines 43 to 70 of \<^verbatim>\<open>factory\<close>, up to the merge of the outer configuration: the sink
  name with the sink's own parameters and the outer configuration, or the exception.
\<close>

definition outer_config :: "dict \<Rightarrow> dict" where
  "outer_config parameters = AList.delete ''sink'' (AList.delete ''quantity'' parameters)"

definition sink_params :: "dict \<Rightarrow> error + val \<times> dict" where
  "sink_params parameters =
     (let config = AList.delete ''quantity'' parameters;
          spec = dict_get config ''sink'' VNone;
          config = AList.delete ''sink'' config
      in case normalize config spec (dict_get config ''filename'' VNone) of
           Inl err \<Rightarrow> Inl err
         | Inr params \<Rightarrow>
             (case map_of params ''name'' of
                None \<Rightarrow> Inl (KeyError ''name'')
              | Some sink_name \<Rightarrow> Inr (sink_name, AList.delete ''name'' params)))"

text \<open>
  The registry \<^verbatim>\<open>OUTPUT_SINKS\<close> is a parameter. The factory and the constructor of
  the aggregate call each other; \<open>depth\<close> is the number of calls the interpreter
  still allows, and the call that exceeds it raises a RecursionError.
\<close>

type_synonym registry = "string \<Rightarrow> implementation option"

fun factory :: "nat \<Rightarrow> registry \<Rightarrow> dict \<Rightarrow> val \<Rightarrow> error + sink"
  and YearlyAggregate_init :: "nat \<Rightarrow> registry \<Rightarrow> dict \<Rightarrow> error + sink" where
  "factory 0 registry parameters sector_name = Inl RecursionError"
| "factory (Suc depth) registry parameters sector_name =
     (case sink_params parameters of
        Inl err \<Rightarrow> Inl err
      | Inr (sink_name, params) \<Rightarrow>
          (let config = outer_config parameters
           in if keys params \<inter> keys config \<noteq> {} then
                Inl (ValueError ''duplicate settings in output section'')
              else
                (case lower_val sector_name of
                   Inl err \<Rightarrow> Inl err
                 | Inr sector \<Rightarrow>
                     (let params = AList.update ''sector'' (VStr sector)
                                     (dict_update params config)
                      in case strip_dot sink_name of
                           Inl err \<Rightarrow> Inl err
                         | Inr key \<Rightarrow>
                             (case registry key of
                                None \<Rightarrow> Inl (KeyError key)
                              | Some YearlyAggregate \<Rightarrow>
                                  YearlyAggregate_init depth registry params
                              | Some (Function f) \<Rightarrow> Inr (Partial f params))))))"
| "YearlyAggregate_init 0 registry arguments = Inl RecursionError"
| "YearlyAggregate_init (Suc depth) registry arguments =
     (let final_sink = dict_get arguments ''final_sink'' VNone;
          sector = dict_get arguments ''sector'' (VStr []);
          axis = dict_get arguments ''axis'' (VStr ''year'');
          kwargs = AList.delete ''axis'' (AList.delete ''sector''
                     (AList.delete ''final_sink'' arguments))
      in case inner_config final_sink kwargs of
           Inl err \<Rightarrow> Inl err
         | Inr config \<Rightarrow>
             (case factory depth registry config sector of
                Inl err \<Rightarrow> Inl err
              | Inr inner \<Rightarrow> Inr (Aggregate inner None axis)))"

text \<open>
  Modelled from the spec: the decorator \<^verbatim>\<open>registrator\<close> of \<^verbatim>\<open>muse.registration\<close> is
  not part of the module. The registry holds each implementation under the names its
  \<^verbatim>\<open>register_output_sink\<close> decoration gives.
\<close>

definition OUTPUT_SINKS :: registry where
  "OUTPUT_SINKS =
     map_of [(''csv'', Function csv),
             (''netcdf'', Function netcdf), (''nc'', Function netcdf),
             (''excel'', Function excel), (''xlsx'', Function excel),
             (''aggregate'', YearlyAggregate)]"

section \<open>Reference values\<close>

text \<open>
  Sink specifications wrapped \<open>k\<close> times in \<^verbatim>\<open>aggregate\<close>, and what they
  normalize to.
\<close>

fun nested :: "nat \<Rightarrow> string \<Rightarrow> val" where
  "nested 0 s = VStr s"
| "nested (Suc k) s = VDict [(''aggregate'', nested k s)]"

fun wrapped :: "nat \<Rightarrow> string \<Rightarrow> dict" where
  "wrapped 0 s = [(''name'', VStr s)]"
| "wrapped (Suc k) s =
     [(''name'', VStr ''aggregate''), (''final_sink'', VDict [(''sink'', VDict (wrapped k s))])]"

text \<open>
  The name that normalization gives a sink whose specification is absent, as the
  code computes it: the outer \<^verbatim>\<open>suffix\<close> when it is there, else the suffix of the file
  name; \<^verbatim>\<open>csv\<close> when that is empty or false.
\<close>

definition inferred_name :: "dict \<Rightarrow> val \<Rightarrow> val" where
  "inferred_name config filename =
     (case map_of config ''suffix'' of
        Some v \<Rightarrow> (if truthy v then v else VStr ''csv'')
      | None \<Rightarrow>
          (case filename of
             VStr f \<Rightarrow> (if path_suffix f = [] then VStr ''csv'' else VStr (path_suffix f))
           | _ \<Rightarrow> VStr ''csv''))"







section \<open>Normalization: properties\<close>

lemma normalize_no_aggregate:
  "normalize_spec config spec filename = Inr p \<Longrightarrow> map_of p ''aggregate'' = None \<Longrightarrow>
   normalize config spec filename = Inr p"
  by (simp add: normalize.simps)

lemma normalize_string: "normalize config (VStr s) filename = Inr [(''name'', VStr s)]"
  by (simp add: normalize.simps normalize_spec_def)

lemma normalize_wrap:
  assumes "normalize_spec config spec filename = Inr p"
    and "map_of p ''aggregate'' = Some a"
  shows "normalize config spec filename =
     (case normalize config a filename of
        Inl e \<Rightarrow> Inl e
      | Inr inner \<Rightarrow>
          Inr (AList.update ''final_sink'' (VDict [(''sink'', VDict inner)])
                (AList.delete ''aggregate'' (AList.update ''name'' (VStr ''aggregate'') p))))"
  using assms by (subst normalize.simps) (simp add: Let_def)

lemma normalize_nested: "normalize config (nested k s) filename = Inr (wrapped k s)"
proof (induction k)
  case 0
  show ?case by (simp add: normalize_string)
next
  case (Suc k)
  have "normalize_spec config (nested (Suc k) s) filename = Inr [(''aggregate'', nested k s)]"
    by (simp add: normalize_spec_def)
  from normalize_wrap [OF this, of "nested k s"] Suc show ?case
    by simp
qed

lemmas path_defs = path_suffix_def path_name_def path_parts_def name_suffix_def

lemma path_suffix_empty: "path_suffix [] = []"
  by (simp add: path_defs)

lemma normalize_absent:
  assumes "filename = VNone \<or> (\<exists>f. filename = VStr f)"
  shows "normalize config VNone filename = Inr [(''name'', inferred_name config filename)]"
proof -
  have "normalize_spec config VNone filename = Inr [(''name'', inferred_name config filename)]"
    using assms
    by (auto simp: normalize_spec_def default_suffix_def dict_get_def inferred_name_def Let_def
        path_suffix_empty split: option.splits)
  then show ?thesis by (simp add: normalize_no_aggregate)
qed

lemmas factory_defs = sink_params_def outer_config_def keys_def dict_get_def dict_update_def
  OUTPUT_SINKS_def Let_def

lemmas lower_defs = lower_def to_lower_def uppercase_def lowercase_def

text \<open>
  Claim C4, as the code has it. A mapping without an \<^verbatim>\<open>aggregate\<close> key is used as it
  is, and a bare string is the sink's name. When the sink specification is absent and
  the file name is absent or a string, the name is \<open>inferred_name\<close>: the \<^verbatim>\<open>suffix\<close>
  key of the outer configuration when it is set (\<^verbatim>\<open>csv\<close> when it is false), and only
  without that key the suffix of the file name, \<^verbatim>\<open>csv\<close> when the file name is absent
  or has no suffix. The bare string \<^verbatim>\<open>nc\<close> builds the NetCDF writer.
\<close>

theorem normalize_sink_cases:
  "(map_of m ''aggregate'' = None \<longrightarrow> normalize config (VDict m) filename = Inr m) \<and>
   normalize config (VStr s) filename = Inr [(''name'', VStr s)] \<and>
   (filename = VNone \<or> (\<exists>f. filename = VStr f) \<longrightarrow>
      normalize config VNone filename = Inr [(''name'', inferred_name config filename)]) \<and>
   (map_of config ''suffix'' = None \<longrightarrow>
      inferred_name config VNone = VStr ''csv'' \<and>
      inferred_name config (VStr f) = VStr (if path_suffix f = [] then ''csv'' else path_suffix f)) \<and>
   factory (Suc depth) OUTPUT_SINKS [(''sink'', VStr ''nc'')] (VStr sector) =
     Inr (Partial netcdf [(''sector'', VStr (lower sector))])"
proof (intro conjI impI)
  assume "map_of m ''aggregate'' = None"
  then show "normalize config (VDict m) filename = Inr m"
    by (simp add: normalize_no_aggregate normalize_spec_def)
next
  show "normalize config (VStr s) filename = Inr [(''name'', VStr s)]"
    by (rule normalize_string)
next
  assume "filename = VNone \<or> (\<exists>f. filename = VStr f)"
  then show "normalize config VNone filename = Inr [(''name'', inferred_name config filename)]"
    by (rule normalize_absent)
next
  assume "map_of config ''suffix'' = None"
  then show "inferred_name config VNone = VStr ''csv''"
    by (simp add: inferred_name_def)
next
  assume "map_of config ''suffix'' = None"
  then show "inferred_name config (VStr f) =
      VStr (if path_suffix f = [] then ''csv'' else path_suffix f)"
    by (simp add: inferred_name_def)
next
  show "factory (Suc depth) OUTPUT_SINKS [(''sink'', VStr ''nc'')] (VStr sector) =
     Inr (Partial netcdf [(''sector'', VStr (lower sector))])"
    by (simp add: factory_defs normalize_string)
qed

text \<open>
  The cases of the preceding theorem at concrete inputs: a mapping, a file name
  with a suffix, a file name without one, and no file name.
\<close>

theorem normalize_sink_cases_witness:
  "normalize [] (VDict [(''name'', VStr ''csv'')]) VNone = Inr [(''name'', VStr ''csv'')] \<and>
   normalize [] VNone (VStr ''out/{year}.nc'') = Inr [(''name'', VStr ''.nc'')] \<and>
   normalize [] VNone (VStr ''out/results'') = Inr [(''name'', VStr ''csv'')] \<and>
   normalize [] VNone VNone = Inr [(''name'', VStr ''csv'')]"
proof -
  have a: "map_of [(''name'', VStr ''csv'')] ''aggregate'' = None" by simp
  have b: "map_of ([]::dict) ''suffix'' = None" by simp
  have p1: "path_suffix ''out/{year}.nc'' = ''.nc''" by (simp add: path_defs)
  have p2: "path_suffix ''out/results'' = []" by (simp add: path_defs)
  show ?thesis
    using normalize_sink_cases [where m = "[(''name'', VStr ''csv'')]" and config = "[]"
          and filename = VNone]
      normalize_sink_cases [where config = "[]" and filename = "VStr ''out/{year}.nc''"
          and f = "''out/{year}.nc''"]
      normalize_sink_cases [where config = "[]" and filename = "VStr ''out/results''"
          and f = "''out/results''"]
      a b p1 p2
    by simp
qed

text \<open>
  Claim C4 as stated fails where the outer configuration has a \<^verbatim>\<open>suffix\<close>: with the
  file name \<^verbatim>\<open>out.nc\<close> and the suffix \<^verbatim>\<open>xlsx\<close> the name is \<^verbatim>\<open>xlsx\<close>, not the suffix
  \<^verbatim>\<open>.nc\<close> of the file name, and the factory builds the spreadsheet writer.
\<close>

theorem normalize_suffix_overrides_filename:
  "normalize [(''suffix'', VStr ''xlsx'')] VNone (VStr ''out.nc'') = Inr [(''name'', VStr ''xlsx'')] \<and>
   path_suffix ''out.nc'' = ''.nc'' \<and>
   factory 1 OUTPUT_SINKS [(''filename'', VStr ''out.nc''), (''suffix'', VStr ''xlsx'')]
       (VStr ''power'')
     = Inr (Partial excel [(''filename'', VStr ''out.nc''), (''suffix'', VStr ''xlsx''),
                           (''sector'', VStr ''power'')])"
proof (intro conjI)
  have n: "\<And>c. normalize c VNone (VStr ''out.nc'') =
      Inr [(''name'', inferred_name c (VStr ''out.nc''))]"
    by (rule normalize_absent) simp
  show "normalize [(''suffix'', VStr ''xlsx'')] VNone (VStr ''out.nc'') =
      Inr [(''name'', VStr ''xlsx'')]"
    by (simp add: n inferred_name_def)
  show "path_suffix ''out.nc'' = ''.nc''"
    by (simp add: path_defs)
  show "factory 1 OUTPUT_SINKS [(''filename'', VStr ''out.nc''), (''suffix'', VStr ''xlsx'')]
       (VStr ''power'')
     = Inr (Partial excel [(''filename'', VStr ''out.nc''), (''suffix'', VStr ''xlsx''),
                           (''sector'', VStr ''power'')])"
    unfolding One_nat_def
    by (simp add: n inferred_name_def factory_defs lower_defs)
qed

text \<open>
  Claim C5. When the specification, after lines 49 to 57, has an \<^verbatim>\<open>aggregate\<close> key
  whose value normalizes to \<open>inner\<close>, the result has the name \<^verbatim>\<open>aggregate\<close>, the
  parameter \<^verbatim>\<open>final_sink\<close> holding \<open>inner\<close> as its \<^verbatim>\<open>sink\<close>, no \<^verbatim>\<open>aggregate\<close> key,
  and every other key as before. The wrapping nests to any depth: a specification
  wrapped \<open>depth\<close> times in \<^verbatim>\<open>aggregate\<close> normalizes to \<open>depth\<close> nested
  \<^verbatim>\<open>final_sink\<close> parameters.
\<close>

theorem normalize_aggregate_wraps:
  "(normalize_spec config spec filename = Inr p \<and> map_of p ''aggregate'' = Some a \<and>
    normalize config a filename = Inr inner \<longrightarrow>
      (\<exists>r. normalize config spec filename = Inr r \<and>
           map_of r ''name'' = Some (VStr ''aggregate'') \<and>
           map_of r ''final_sink'' = Some (VDict [(''sink'', VDict inner)]) \<and>
           map_of r ''aggregate'' = None \<and>
           (\<forall>k. k \<notin> {''name'', ''final_sink'', ''aggregate''} \<longrightarrow> map_of r k = map_of p k))) \<and>
   normalize config (nested depth s) filename = Inr (wrapped depth s)"
proof (intro conjI impI)
  assume h: "normalize_spec config spec filename = Inr p \<and> map_of p ''aggregate'' = Some a \<and>
    normalize config a filename = Inr inner"
  let ?r = "AList.update ''final_sink'' (VDict [(''sink'', VDict inner)])
                (AList.delete ''aggregate'' (AList.update ''name'' (VStr ''aggregate'') p))"
  have "normalize config spec filename = Inr ?r"
    using normalize_wrap [of config spec filename p a] h by simp
  moreover have "map_of ?r ''name'' = Some (VStr ''aggregate'')"
    by (simp add: update_conv' delete_conv')
  moreover have "map_of ?r ''final_sink'' = Some (VDict [(''sink'', VDict inner)])"
    by (simp add: update_conv')
  moreover have "map_of ?r ''aggregate'' = None"
    by (simp add: update_conv' delete_conv')
  moreover have "\<forall>k. k \<notin> {''name'', ''final_sink'', ''aggregate''} \<longrightarrow> map_of ?r k = map_of p k"
    by (simp add: update_conv' delete_conv')
  ultimately show "\<exists>r. normalize config spec filename = Inr r \<and>
           map_of r ''name'' = Some (VStr ''aggregate'') \<and>
           map_of r ''final_sink'' = Some (VDict [(''sink'', VDict inner)]) \<and>
           map_of r ''aggregate'' = None \<and>
           (\<forall>k. k \<notin> {''name'', ''final_sink'', ''aggregate''} \<longrightarrow> map_of r k = map_of p k)"
    by blast
next
  show "normalize config (nested depth s) filename = Inr (wrapped depth s)"
    by (rule normalize_nested)
qed

text \<open>
  The preceding theorem at the specification
  \<^verbatim>\<open>{aggregate: "csv", axis: "t"}\<close>.
\<close>

theorem normalize_aggregate_wraps_witness:
  "\<exists>r. normalize [] (VDict [(''aggregate'', VStr ''csv''), (''axis'', VStr ''t'')]) VNone = Inr r \<and>
       map_of r ''name'' = Some (VStr ''aggregate'') \<and>
       map_of r ''final_sink'' = Some (VDict [(''sink'', VDict [(''name'', VStr ''csv'')])]) \<and>
       map_of r ''aggregate'' = None \<and>
       map_of r ''axis'' = Some (VStr ''t'')"
proof -
  let ?p = "[(''aggregate'', VStr ''csv''), (''axis'', VStr ''t'')]"
  have h: "normalize_spec [] (VDict ?p) VNone = Inr ?p \<and>
      map_of ?p ''aggregate'' = Some (VStr ''csv'') \<and>
      normalize [] (VStr ''csv'') VNone = Inr [(''name'', VStr ''csv'')]"
    by (simp add: normalize_spec_def normalize_string)
  from normalize_aggregate_wraps [where config = "[]" and spec = "VDict ?p" and filename = VNone
      and p = ?p and a = "VStr ''csv''" and inner = "[(''name'', VStr ''csv'')]"] h
  obtain r where r: "normalize [] (VDict ?p) VNone = Inr r"
    "map_of r ''name'' = Some (VStr ''aggregate'')"
    "map_of r ''final_sink'' = Some (VDict [(''sink'', VDict [(''name'', VStr ''csv'')])])"
    "map_of r ''aggregate'' = None"
    "\<forall>k. k \<notin> {''name'', ''final_sink'', ''aggregate''} \<longrightarrow> map_of r k = map_of ?p k"
    by blast
  from r(5) have "map_of r ''axis'' = Some (VStr ''t'')" by simp
  with r show ?thesis by blast
qed

section \<open>The factory: duplicate settings\<close>

text \<open>
  Claim C2, as the code has it. When the normalized specification has a name, and a
  key of the sink's parameters (the specification without its name) is also a key of
  the outer configuration (without \<^verbatim>\<open>quantity\<close> and \<^verbatim>\<open>sink\<close>), the factory raises the
  ValueError of line 69, whatever the registry holds and whatever the sector is: no
  implementation is looked up or built. The factory has no access to the file system.
\<close>

theorem factory_duplicate_settings:
  assumes "sink_params parameters = Inr (sink_name, params)"
    and "keys params \<inter> keys (outer_config parameters) \<noteq> {}"
  shows "factory (Suc depth) registry parameters sector_name =
     Inl (ValueError ''duplicate settings in output section'')"
  using assms by (simp add: Let_def)

text \<open>
  The preceding theorem for \<^verbatim>\<open>overwrite\<close> set both inside the sink mapping
  and beside it, with an empty registry.
\<close>

theorem factory_duplicate_settings_witness:
  "factory 1 Map.empty
     [(''sink'', VDict [(''name'', VStr ''csv''), (''overwrite'', VBool True)]),
      (''overwrite'', VBool True)] (VStr ''power'')
   = Inl (ValueError ''duplicate settings in output section'')"
proof -
  let ?ps = "[(''sink'', VDict [(''name'', VStr ''csv''), (''overwrite'', VBool True)]),
      (''overwrite'', VBool True)]"
  have n: "normalize [(''overwrite'', VBool True)]
      (VDict [(''name'', VStr ''csv''), (''overwrite'', VBool True)]) VNone
      = Inr [(''name'', VStr ''csv''), (''overwrite'', VBool True)]"
    by (simp add: normalize_no_aggregate normalize_spec_def)
  have a: "sink_params ?ps = Inr (VStr ''csv'', [(''overwrite'', VBool True)])"
    by (simp add: sink_params_def dict_get_def n)
  have b: "keys [(''overwrite'', VBool True)] \<inter> keys (outer_config ?ps) \<noteq> {}"
    by (simp add: keys_def outer_config_def)
  show ?thesis
    unfolding One_nat_def
    using factory_duplicate_settings [OF a b, of 0 Map.empty "VStr ''power''"] .
qed

text \<open>
  Claim C2 as stated fails in two places. The key \<^verbatim>\<open>name\<close> of the normalized
  specification is popped before the check: with the sink \<^verbatim>\<open>csv\<close> and an outer key
  \<^verbatim>\<open>name\<close> the key is in both, and the factory returns a sink, with the outer
  \<^verbatim>\<open>name\<close> bound. And a sink mapping without \<^verbatim>\<open>name\<close> raises the KeyError of line 66
  before the check, also when \<^verbatim>\<open>overwrite\<close> is in both.
\<close>

theorem factory_duplicate_name_accepted:
  "normalize [(''name'', VStr ''foo'')] (VStr ''csv'') VNone = Inr [(''name'', VStr ''csv'')] \<and>
   ''name'' \<in> keys [(''name'', VStr ''csv'')] \<inter>
      keys (outer_config [(''sink'', VStr ''csv''), (''name'', VStr ''foo'')]) \<and>
   factory 1 OUTPUT_SINKS [(''sink'', VStr ''csv''), (''name'', VStr ''foo'')] (VStr ''power'')
     = Inr (Partial csv [(''name'', VStr ''foo''), (''sector'', VStr ''power'')]) \<and>
   factory 1 OUTPUT_SINKS
       [(''sink'', VDict [(''overwrite'', VBool True)]), (''overwrite'', VBool True)]
       (VStr ''power'')
     = Inl (KeyError ''name'')"
proof (intro conjI)
  show "normalize [(''name'', VStr ''foo'')] (VStr ''csv'') VNone = Inr [(''name'', VStr ''csv'')]"
    by (rule normalize_string)
  show "''name'' \<in> keys [(''name'', VStr ''csv'')] \<inter>
      keys (outer_config [(''sink'', VStr ''csv''), (''name'', VStr ''foo'')])"
    by (simp add: keys_def outer_config_def)
  show "factory 1 OUTPUT_SINKS [(''sink'', VStr ''csv''), (''name'', VStr ''foo'')] (VStr ''power'')
     = Inr (Partial csv [(''name'', VStr ''foo''), (''sector'', VStr ''power'')])"
    unfolding One_nat_def
    by (simp add: factory_defs normalize_string lower_defs)
  have n: "normalize [(''overwrite'', VBool True)] (VDict [(''overwrite'', VBool True)]) VNone
      = Inr [(''overwrite'', VBool True)]"
    by (simp add: normalize_no_aggregate normalize_spec_def)
  show "factory 1 OUTPUT_SINKS
       [(''sink'', VDict [(''overwrite'', VBool True)]), (''overwrite'', VBool True)]
       (VStr ''power'')
     = Inl (KeyError ''name'')"
    unfolding One_nat_def
    by (simp add: sink_params_def dict_get_def n)
qed

section \<open>The aggregate's constructor: the overwrite default\<close>

lemma has_overwrite_iff:
  "has_overwrite d \<longleftrightarrow>
     (''overwrite'' \<in> keys d \<or> (\<exists>s. map_of d ''sink'' = Some (VDict s) \<and> ''overwrite'' \<in> keys s))"
  by (auto simp: has_overwrite_def dict_get_def split: option.splits val.splits)

text \<open>
  Claim C8. Let \<open>d\<close> be the inner configuration after the keyword arguments are
  merged (lines 228 to 231). When \<^verbatim>\<open>overwrite\<close> is neither a key of \<open>d\<close> nor a key
  of its \<^verbatim>\<open>sink\<close> mapping, the configuration handed to the factory has
  \<^verbatim>\<open>overwrite\<close> True and every other key as in \<open>d\<close>; when it is a key at either
  place, the configuration is \<open>d\<close> unchanged. The inner sink is built by the factory
  from that configuration.
\<close>

theorem aggregate_overwrite_default:
  assumes "final_sink = dict_get arguments ''final_sink'' VNone"
    and "kwargs = AList.delete ''axis'' (AList.delete ''sector''
                    (AList.delete ''final_sink'' arguments))"
    and "merge_kwargs final_sink kwargs = Inr d"
  shows "\<exists>config. inner_config final_sink kwargs = Inr config \<and>
      (''overwrite'' \<notin> keys d \<and>
        (\<forall>s. map_of d ''sink'' = Some (VDict s) \<longrightarrow> ''overwrite'' \<notin> keys s) \<longrightarrow>
          map_of config ''overwrite'' = Some (VBool True) \<and>
          (\<forall>k. k \<noteq> ''overwrite'' \<longrightarrow> map_of config k = map_of d k)) \<and>
      (''overwrite'' \<in> keys d \<or>
        (\<exists>s. map_of d ''sink'' = Some (VDict s) \<and> ''overwrite'' \<in> keys s) \<longrightarrow>
          config = d) \<and>
      YearlyAggregate_init (Suc depth) registry arguments =
        (case factory depth registry config (dict_get arguments ''sector'' (VStr [])) of
           Inl err \<Rightarrow> Inl err
         | Inr inner \<Rightarrow> Inr (Aggregate inner None (dict_get arguments ''axis'' (VStr ''year''))))"
proof -
  let ?config = "default_overwrite d"
  have c: "inner_config final_sink kwargs = Inr ?config"
    using assms(3) by (simp add: inner_config_def)
  have "''overwrite'' \<notin> keys d \<and>
        (\<forall>s. map_of d ''sink'' = Some (VDict s) \<longrightarrow> ''overwrite'' \<notin> keys s) \<longrightarrow>
          map_of ?config ''overwrite'' = Some (VBool True) \<and>
          (\<forall>k. k \<noteq> ''overwrite'' \<longrightarrow> map_of ?config k = map_of d k)"
    by (auto simp: default_overwrite_def has_overwrite_iff update_conv')
  moreover have "''overwrite'' \<in> keys d \<or>
        (\<exists>s. map_of d ''sink'' = Some (VDict s) \<and> ''overwrite'' \<in> keys s) \<longrightarrow>
          ?config = d"
    by (auto simp: default_overwrite_def has_overwrite_iff)
  moreover have "YearlyAggregate_init (Suc depth) registry arguments =
        (case factory depth registry ?config (dict_get arguments ''sector'' (VStr [])) of
           Inl err \<Rightarrow> Inl err
         | Inr inner \<Rightarrow> Inr (Aggregate inner None (dict_get arguments ''axis'' (VStr ''year''))))"
    using c assms(1,2) by (simp add: Let_def)
  ultimately show ?thesis using c by blast
qed

text \<open>
  The preceding theorem for an aggregate over the CSV writer: without an
  overwrite policy the inner sink gets \<^verbatim>\<open>overwrite\<close> True, and a policy given by
  keyword, which line 231 merges into the \<^verbatim>\<open>sink\<close> mapping, is kept.
\<close>

theorem aggregate_overwrite_default_witness:
  "YearlyAggregate_init 2 OUTPUT_SINKS
      [(''final_sink'', VDict [(''sink'', VDict [(''name'', VStr ''csv'')])]),
       (''filename'', VStr ''all.csv''), (''sector'', VStr ''power'')]
     = Inr (Aggregate (Partial csv [(''filename'', VStr ''all.csv''), (''overwrite'', VBool True),
                                    (''sector'', VStr ''power'')]) None (VStr ''year'')) \<and>
   YearlyAggregate_init 2 OUTPUT_SINKS
      [(''final_sink'', VDict [(''sink'', VDict [(''name'', VStr ''csv'')])]),
       (''overwrite'', VBool False), (''sector'', VStr ''power'')]
     = Inr (Aggregate (Partial csv [(''overwrite'', VBool False), 
                                    (''sector'', VStr ''power'')]) None (VStr ''year''))"
proof -
  let ?a1 = "[(''final_sink'', VDict [(''sink'', VDict [(''name'', VStr ''csv'')])]),
       (''filename'', VStr ''all.csv''), (''sector'', VStr ''power'')]"
  let ?d1 = "[(''sink'', VDict [(''name'', VStr ''csv''), (''filename'', VStr ''all.csv'')])]"
  let ?a2 = "[(''final_sink'', VDict [(''sink'', VDict [(''name'', VStr ''csv'')])]),
       (''overwrite'', VBool False), (''sector'', VStr ''power'')]"
  let ?d2 = "[(''sink'', VDict [(''name'', VStr ''csv''), (''overwrite'', VBool False)])]"
  have m1: "merge_kwargs (dict_get ?a1 ''final_sink'' VNone)
      (AList.delete ''axis'' (AList.delete ''sector'' (AList.delete ''final_sink'' ?a1))) = Inr ?d1"
    by (simp add: merge_kwargs_def dict_get_def dict_update_def)
  have m2: "merge_kwargs (dict_get ?a2 ''final_sink'' VNone)
      (AList.delete ''axis'' (AList.delete ''sector'' (AList.delete ''final_sink'' ?a2))) = Inr ?d2"
    by (simp add: merge_kwargs_def dict_get_def dict_update_def)
  have i1: "inner_config (dict_get ?a1 ''final_sink'' VNone)
      (AList.delete ''axis'' (AList.delete ''sector'' (AList.delete ''final_sink'' ?a1)))
      = Inr (?d1 @ [(''overwrite'', VBool True)])"
    using m1 by (simp add: inner_config_def default_overwrite_def has_overwrite_def dict_get_def keys_def)
  have n1: "\<And>c. normalize c (VDict [(''name'', VStr ''csv''), (''filename'', VStr ''all.csv'')]) VNone
        = Inr [(''name'', VStr ''csv''), (''filename'', VStr ''all.csv'')]"
    by (simp add: normalize_no_aggregate normalize_spec_def)
  have n2: "\<And>c. normalize c (VDict [(''name'', VStr ''csv''), (''overwrite'', VBool False)]) VNone
        = Inr [(''name'', VStr ''csv''), (''overwrite'', VBool False)]"
    by (simp add: normalize_no_aggregate normalize_spec_def)
  have f1: "factory 1 OUTPUT_SINKS (?d1 @ [(''overwrite'', VBool True)]) (VStr ''power'')
      = Inr (Partial csv [(''filename'', VStr ''all.csv''), (''overwrite'', VBool True),
                                    (''sector'', VStr ''power'')])"
    unfolding One_nat_def by (simp add: factory_defs n1 lower_defs)
  have f2: "factory 1 OUTPUT_SINKS ?d2 (VStr ''power'')
      = Inr (Partial csv [(''overwrite'', VBool False), (''sector'', VStr ''power'')])"
    unfolding One_nat_def by (simp add: factory_defs n2 lower_defs)
  have k2: "''overwrite'' \<in> keys ?d2 \<or>
        (\<exists>s. map_of ?d2 ''sink'' = Some (VDict s) \<and> ''overwrite'' \<in> keys s)"
    by (simp add: keys_def)
  have s1: "dict_get ?a1 ''sector'' (VStr []) = VStr ''power''" "dict_get ?a1 ''axis'' (VStr ''year'') = VStr ''year''"
    "dict_get ?a2 ''sector'' (VStr []) = VStr ''power''" "dict_get ?a2 ''axis'' (VStr ''year'') = VStr ''year''"
    by (simp_all add: dict_get_def)
  have two: "(2::nat) = Suc 1" by simp
  from aggregate_overwrite_default [OF refl refl m1, of 1 OUTPUT_SINKS] i1 f1 s1
  have r1: "YearlyAggregate_init 2 OUTPUT_SINKS ?a1
     = Inr (Aggregate (Partial csv [(''filename'', VStr ''all.csv''), (''overwrite'', VBool True),
                                    (''sector'', VStr ''power'')]) None (VStr ''year''))"
    unfolding two by auto
  from aggregate_overwrite_default [OF refl refl m2, of 1 OUTPUT_SINKS] k2 f2 s1
  have r2: "YearlyAggregate_init 2 OUTPUT_SINKS ?a2
     = Inr (Aggregate (Partial csv [(''overwrite'', VBool False), 
                                    (''sector'', VStr ''power'')]) None (VStr ''year''))"
    unfolding two by auto
  from r1 r2 show ?thesis by simp
qed

section \<open>Evaluation\<close>


section \<open>The CSV writer\<close>



section \<open>The path of the output file\<close>




section \<open>The overwrite policy of a file sink\<close>








section \<open>The yearly aggregate: accumulation\<close>














end
